theory Spec2Isabelle
  imports Main
begin

section \<open>Python values, exceptions and the broker client libraries\<close>

text \<open>
  The exception classes the source names (\<open>IOError\<close>, \<open>AttributeError\<close>, \<open>TypeError\<close>, and
  the \<open>AssertionError\<close> of \<open>assert\<close>), each standing for the class and its subclasses, and
  \<open>OtherError name\<close> for an exception of any other class, such as the errors of the
  client libraries \<open>amqp\<close> and \<open>pika\<close>.
\<close>

datatype exn = IOError | AttributeError | TypeError | AssertionError | OtherError string

text \<open>
  Modelled from the spec: the class \<open>Config\<close> (kuyruk/config.py is not among the sources).
  The spec gives it the named fields host, port, user, password and virtual host; the
  names are those \<open>Kuyruk.connection\<close> reads.
\<close>

record Config =
  RABBIT_HOST :: string
  RABBIT_PORT :: nat
  RABBIT_USER :: string
  RABBIT_PASSWORD :: string
  RABBIT_VIRTUAL_HOST :: string

text \<open>
  The Python values that reach the arguments \<open>config\<close> of \<open>Kuyruk.__init__\<close> and
  \<open>queue\<close>, \<open>retry\<close>, \<open>max_run_time\<close> of \<open>Kuyruk.task\<close>. \<open>PyCallable name\<close> is any
  object for which \<open>callable\<close> holds (a function), \<open>PyConfig c\<close> an instance of \<open>Config\<close>.
\<close>

datatype pyval = PyNone | PyStr string | PyInt int | PyCallable string | PyConfig Config

fun callable :: "pyval \<Rightarrow> bool" where
  "callable (PyCallable name) = True"
| "callable v = False"

text \<open>
  Modelled from the spec: the message a task invocation publishes (kuyruk/task.py is not
  among the sources): target queue, callable identity, positional and keyword arguments,
  retry count and max run time.
\<close>

record Message =
  msg_queue :: pyval
  msg_function :: pyval
  msg_args :: "pyval list"
  msg_kwargs :: "(string \<times> pyval) list"
  msg_retry :: pyval
  msg_max_run_time :: pyval

text \<open>
  The arguments the source hands to the client libraries:
  \<open>pika.PlainCredentials(user, password)\<close> and
  \<open>pika.ConnectionParameters(host=..., port=..., credentials=...)\<close>.
\<close>

datatype credentials = PlainCredentials string string

datatype parameters = ConnectionParameters string nat credentials

text \<open>
  The calls the source makes into the client libraries. Objects of the libraries
  (connections, channels) are references, modelled as natural numbers.
  \<open>AmqpConnection host userid password virtual_host\<close> is \<open>amqp.Connection(...)\<close>,
  \<open>BlockingConnection p\<close> is \<open>pika.BlockingConnection(p)\<close>, \<open>Connect c\<close> is \<open>c.connect()\<close>,
  \<open>Channel c\<close> is \<open>c.channel()\<close>, \<open>ChannelClose ch\<close> is \<open>ch.close()\<close> on a channel,
  \<open>SendHeartbeat c\<close> is \<open>c.send_heartbeat()\<close>, \<open>Close c\<close> is \<open>c.close()\<close> on a connection,
  \<open>BasicPublish ch msg\<close> publishes the message \<open>msg\<close> on the channel \<open>ch\<close>.
\<close>

datatype call =
    AmqpConnection string string string string
  | BlockingConnection parameters
  | Connect nat
  | Channel nat
  | ChannelClose nat
  | SendHeartbeat nat
  | Close nat
  | BasicPublish nat Message

text \<open>
  What is observable of a run: every call into a library with its outcome, in order.
  \<open>Created c n\<close>: the call \<open>c\<close> returned the new object \<open>n\<close>; \<open>Returned c\<close>: it returned
  normally; \<open>Raised c e\<close>: it raised \<open>e\<close>.
\<close>

datatype event = Created call nat | Returned call | Raised call exn

datatype level = INFO | DEBUG

text \<open>
  The world outside the program: the trace of library calls, the objects whose
  \<open>is_open\<close> attribute is true, the next free object reference, and the records written
  to the module-level \<open>logger\<close>.
\<close>

record world =
  trace :: "event list"
  open_objs :: "nat set"
  next_obj :: nat
  log :: "(level \<times> string) list"

text \<open>
  The libraries and the broker behind them are not part of the program: a \<open>broker\<close> decides,
  from the calls made so far, how the next call ends. \<open>Drops e\<close> raises \<open>e\<close> and leaves the
  object the call was made on closed (the library noticed that the connection is lost).
\<close>

datatype outcome = Succeeds | Raises exn | Drops exn

type_synonym broker = "event list \<Rightarrow> call \<Rightarrow> outcome"

text \<open>A computation either raises or returns a value, and changes the world.\<close>

type_synonym 'a io = "world \<Rightarrow> (exn + 'a) \<times> world"

definition return :: "'a \<Rightarrow> 'a io" where
  "return x w = (Inr x, w)"

definition bind :: "'a io \<Rightarrow> ('a \<Rightarrow> 'b io) \<Rightarrow> 'b io" where
  "bind m f w = (case m w of (Inl e, w1) \<Rightarrow> (Inl e, w1) | (Inr x, w1) \<Rightarrow> f x w1)"

text \<open>
  \<open>try: m finally: fin\<close>. The cleanup runs on every exit of \<open>m\<close>; an exception raised by
  the cleanup replaces the outcome of \<open>m\<close>, otherwise the outcome of \<open>m\<close> stands.
\<close>

definition try_finally :: "'a io \<Rightarrow> unit io \<Rightarrow> 'a io" where
  "try_finally m fin w =
     (case m w of (r, w1) \<Rightarrow>
        (case fin w1 of (Inl e, w2) \<Rightarrow> (Inl e, w2) | (Inr u, w2) \<Rightarrow> (r, w2)))"

text \<open>\<open>try: m except x: pass\<close>.\<close>

definition try_except_pass :: "exn \<Rightarrow> unit io \<Rightarrow> unit io" where
  "try_except_pass x m w =
     (case m w of
        (Inl e, w1) \<Rightarrow> if e = x then (Inr (), w1) else (Inl e, w1)
      | (Inr u, w1) \<Rightarrow> (Inr u, w1))"

definition logger_info :: "string \<Rightarrow> unit io" where
  "logger_info msg w = (Inr (), w\<lparr>log := log w @ [(INFO, msg)]\<rparr>)"

definition logger_debug :: "string \<Rightarrow> unit io" where
  "logger_debug msg w = (Inr (), w\<lparr>log := log w @ [(DEBUG, msg)]\<rparr>)"

fun target :: "call \<Rightarrow> nat option" where
  "target (AmqpConnection h u p v) = None"
| "target (BlockingConnection p) = None"
| "target (Connect c) = Some c"
| "target (Channel c) = Some c"
| "target (ChannelClose ch) = Some ch"
| "target (SendHeartbeat c) = Some c"
| "target (Close c) = Some c"
| "target (BasicPublish ch msg) = Some ch"

fun closing :: "call \<Rightarrow> bool" where
  "closing (ChannelClose ch) = True"
| "closing (Close c) = True"
| "closing c = False"

definition mark_closed :: "nat option \<Rightarrow> world \<Rightarrow> world" where
  "mark_closed t w = (case t of None \<Rightarrow> w | Some n \<Rightarrow> w\<lparr>open_objs := open_objs w - {n}\<rparr>)"

text \<open>A library call that returns nothing: \<open>connect\<close>, \<open>close\<close>, \<open>send_heartbeat\<close>.\<close>

definition lib_call :: "broker \<Rightarrow> call \<Rightarrow> unit io" where
  "lib_call B c w =
     (case B (trace w) c of
        Succeeds \<Rightarrow>
          (Inr (), (if closing c then mark_closed (target c) w else w)
                     \<lparr>trace := trace w @ [Returned c]\<rparr>)
      | Raises e \<Rightarrow> (Inl e, w\<lparr>trace := trace w @ [Raised c e]\<rparr>)
      | Drops e \<Rightarrow> (Inl e, (mark_closed (target c) w)\<lparr>trace := trace w @ [Raised c e]\<rparr>))"

text \<open>
  A library call that returns a new object, open from the start: a connection
  constructor, or \<open>channel()\<close> on a connection.
\<close>

definition lib_new :: "broker \<Rightarrow> call \<Rightarrow> nat io" where
  "lib_new B c w =
     (case B (trace w) c of
        Succeeds \<Rightarrow>
          (Inr (next_obj w),
           w\<lparr>trace := trace w @ [Created c (next_obj w)],
             open_objs := insert (next_obj w) (open_objs w),
             next_obj := Suc (next_obj w)\<rparr>)
      | Raises e \<Rightarrow> (Inl e, w\<lparr>trace := trace w @ [Raised c e]\<rparr>)
      | Drops e \<Rightarrow> (Inl e, (mark_closed (target c) w)\<lparr>trace := trace w @ [Raised c e]\<rparr>))"

section \<open>connection.py: LazyConnection\<close>

text \<open>The field \<open>lc_connection\<close> is the attribute \<open>_connection\<close>: \<open>None\<close> or a connection.\<close>

record LazyConnection =
  host :: string
  port :: nat
  user :: string
  password :: string
  lc_connection :: "nat option"

definition LazyConnection_init :: "string \<Rightarrow> nat \<Rightarrow> string \<Rightarrow> string \<Rightarrow> LazyConnection" where
  "LazyConnection_init h p u pw =
     \<lparr>host = h, port = p, user = u, password = pw, lc_connection = None\<rparr>"

text \<open>\<open>self._connection is not None and self._connection.is_open\<close>\<close>

definition is_open :: "LazyConnection \<Rightarrow> world \<Rightarrow> bool" where
  "is_open self w =
     (case lc_connection self of None \<Rightarrow> False | Some c \<Rightarrow> c \<in> open_objs w)"

text \<open>
  The methods change the manager and the world: they return the outcome, the manager
  and the world. \<open>open_conn\<close> is the method \<open>open\<close>, \<open>channel_lc\<close> the method \<open>channel\<close>
  and \<open>close_lc\<close> the method \<open>close\<close> of \<open>LazyConnection\<close> (\<open>open\<close> is a constant of HOL,
  \<open>channel\<close> is the context manager of \<open>Kuyruk\<close> below).
\<close>

definition open_conn ::
  "broker \<Rightarrow> LazyConnection \<Rightarrow> world \<Rightarrow> (exn + unit) \<times> LazyConnection \<times> world" where
  "open_conn B self w =
     (if is_open self w then (Inl AssertionError, self, w)
      else
        let credentials = PlainCredentials (user self) (password self);
            parameters = ConnectionParameters (host self) (port self) credentials
        in case lib_new B (BlockingConnection parameters) w of
             (Inl e, w1) \<Rightarrow> (Inl e, self, w1)
           | (Inr c, w1) \<Rightarrow>
               (Inr (), self\<lparr>lc_connection := Some c\<rparr>,
                snd (logger_info ''Connected to RabbitMQ'' w1)))"

definition channel_lc ::
  "broker \<Rightarrow> LazyConnection \<Rightarrow> world \<Rightarrow> (exn + nat) \<times> LazyConnection \<times> world" where
  "channel_lc B self w =
     (case (if \<not> is_open self w then open_conn B self w else (Inr (), self, w)) of
        (Inl e, self1, w1) \<Rightarrow> (Inl e, self1, w1)
      | (Inr u, self1, w1) \<Rightarrow>
          (case lc_connection self1 of
             None \<Rightarrow> (Inl AttributeError, self1, w1)
           | Some c \<Rightarrow>
               (case lib_new B (Channel c) w1 of
                  (Inl e, w2) \<Rightarrow> (Inl e, self1, w2)
                | (Inr ch, w2) \<Rightarrow> (Inr ch, self1, w2))))"

definition close_lc ::
  "broker \<Rightarrow> LazyConnection \<Rightarrow> world \<Rightarrow> (exn + unit) \<times> LazyConnection \<times> world" where
  "close_lc B self w =
     (if is_open self w then
        (case lc_connection self of
           None \<Rightarrow> (Inl AttributeError, self, w)
         | Some c \<Rightarrow>
             (case lib_call B (Close c) w of
                (Inl e, w1) \<Rightarrow> (Inl e, self, w1)
              | (Inr u, w1) \<Rightarrow> (Inr (), self, snd (logger_info ''Connection closed'' w1))))
      else (Inr (), self, snd (logger_debug ''Not connected'' w)))"

text \<open>\<open>n\<close> calls of \<open>close()\<close> in a row, stopping at the first that raises.\<close>

fun close_times ::
  "broker \<Rightarrow> nat \<Rightarrow> LazyConnection \<Rightarrow> world \<Rightarrow> (exn + unit) \<times> LazyConnection \<times> world" where
  "close_times B 0 self w = (Inr (), self, w)"
| "close_times B (Suc n) self w =
     (case close_lc B self w of
        (Inl e, self1, w1) \<Rightarrow> (Inl e, self1, w1)
      | (Inr u, self1, w1) \<Rightarrow> close_times B n self1 w1)"


section \<open>__init__.py: Kuyruk\<close>

record Kuyruk =
  config :: Config
  extensions :: "(string \<times> pyval) list"

text \<open>
  \<open>Kuyruk.__init__(self, config=None)\<close>. \<open>Config_default\<close> is what \<open>Config()\<close> returns
  (the class is not among the sources, so its defaults are a parameter).
\<close>

definition Kuyruk_init :: "Config \<Rightarrow> pyval \<Rightarrow> exn + Kuyruk" where
  "Kuyruk_init Config_default config0 =
     (let config1 = (if config0 = PyNone then PyConfig Config_default else config0)
      in case config1 of
           PyConfig c \<Rightarrow> Inr \<lparr>config = c, extensions = []\<rparr>
         | _ \<Rightarrow> Inl TypeError)"

text \<open>
  Modelled from the spec: the class \<open>Task\<close> (kuyruk/task.py is not among the sources).
  A descriptor holds the underlying callable, the queue name, the retry count and the
  max run time, and the \<open>Kuyruk\<close> object that made it; constructing it stores the
  arguments and does nothing else.
\<close>

record Task =
  task_f :: pyval
  task_kuyruk :: Kuyruk
  task_queue :: pyval
  task_retry :: pyval
  task_max_run_time :: pyval

definition Task_init :: "pyval \<Rightarrow> Kuyruk \<Rightarrow> pyval \<Rightarrow> pyval \<Rightarrow> pyval \<Rightarrow> Task io" where
  "Task_init fn k queue retry max_run_time =
     return \<lparr>task_f = fn, task_kuyruk = k, task_queue = queue, task_retry = retry,
             task_max_run_time = max_run_time\<rparr>"

text \<open>
  \<open>Kuyruk.task\<close> returns a \<open>Task\<close> when it is applied bare, and the function \<open>inner\<close>
  (which makes the \<open>Task\<close> when applied to the function) when it is applied with
  arguments.
\<close>

datatype task_result = Wrapped Task | Decorator "pyval \<Rightarrow> Task io"

definition inner :: "Kuyruk \<Rightarrow> pyval \<Rightarrow> pyval \<Rightarrow> pyval \<Rightarrow> pyval \<Rightarrow> Task io" where
  "inner self queue retry max_run_time fn =
     (let queue1 = (if callable queue then PyStr ''kuyruk'' else queue)
      in Task_init fn self queue1 retry max_run_time)"

definition decorator :: "Kuyruk \<Rightarrow> pyval \<Rightarrow> pyval \<Rightarrow> pyval \<Rightarrow> pyval \<Rightarrow> Task io" where
  "decorator self queue retry max_run_time = inner self queue retry max_run_time"

text \<open>
  \<open>task(self, queue='kuyruk', retry=0, max_run_time=None)\<close>: each argument is an option,
  \<open>None\<close> when the caller omits it, and then takes its default. The bare \<open>@kuyruk.task\<close>
  above a function \<open>fn\<close> is \<open>task self (Some fn) None None\<close>.
\<close>

definition task ::
  "Kuyruk \<Rightarrow> pyval option \<Rightarrow> pyval option \<Rightarrow> pyval option \<Rightarrow> task_result io" where
  "task self queue_arg retry_arg max_run_time_arg =
     (let queue = (case queue_arg of None \<Rightarrow> PyStr ''kuyruk'' | Some q \<Rightarrow> q);
          retry = (case retry_arg of None \<Rightarrow> PyInt 0 | Some r \<Rightarrow> r);
          max_run_time = (case max_run_time_arg of None \<Rightarrow> PyNone | Some m \<Rightarrow> m)
      in if callable queue
         then bind (decorator self queue retry max_run_time queue) (\<lambda>t. return (Wrapped t))
         else return (Decorator (decorator self queue retry max_run_time)))"

text \<open>\<open>"%s" % n\<close> for a port number.\<close>

fun str_nat :: "nat \<Rightarrow> string" where
  "str_nat n =
     (if n < 10 then [''0123456789'' ! n]
      else str_nat (n div 10) @ [''0123456789'' ! (n mod 10)])"

text \<open>
  \<open>Kuyruk.connection\<close> is a generator under \<open>@contextmanager\<close>: the code up to the
  \<open>yield\<close> runs on entering the \<open>with\<close> block (\<open>connection_enter\<close>), the \<open>finally\<close>
  block runs on leaving it (\<open>connection_exit\<close>), whether the block returned or raised.
\<close>

definition connection_enter :: "broker \<Rightarrow> Kuyruk \<Rightarrow> nat io" where
  "connection_enter B self =
     bind (lib_new B (AmqpConnection
             (RABBIT_HOST (config self) @ '':'' @ str_nat (RABBIT_PORT (config self)))
             (RABBIT_USER (config self))
             (RABBIT_PASSWORD (config self))
             (RABBIT_VIRTUAL_HOST (config self))))
       (\<lambda>conn. bind (try_except_pass AttributeError (lib_call B (Connect conn)))
         (\<lambda>u. bind (logger_info ''Connected to RabbitMQ'')
           (\<lambda>u. return conn)))"

text \<open>The function \<open>_is_alive\<close>.\<close>

definition is_alive :: "broker \<Rightarrow> nat \<Rightarrow> bool io" where
  "is_alive B conn w =
     (case lib_call B (SendHeartbeat conn) w of
        (Inl e, w1) \<Rightarrow> if e = IOError then (Inr False, w1) else (Inl e, w1)
      | (Inr u, w1) \<Rightarrow> (Inr True, w1))"

definition connection_exit :: "broker \<Rightarrow> nat \<Rightarrow> unit io" where
  "connection_exit B conn =
     bind (is_alive B conn) (\<lambda>alive. if alive then lib_call B (Close conn) else return ())"

definition connection :: "broker \<Rightarrow> Kuyruk \<Rightarrow> (nat \<Rightarrow> 'a io) \<Rightarrow> 'a io" where
  "connection B self body =
     bind (connection_enter B self)
       (\<lambda>conn. try_finally (body conn) (connection_exit B conn))"

text \<open>
  \<open>Kuyruk.channel\<close>, inside \<open>with self.connection() as conn\<close>: \<open>channel_enter\<close> up to the
  \<open>yield\<close>, \<open>channel_exit\<close> the \<open>finally\<close> block.
\<close>

definition channel_enter :: "broker \<Rightarrow> nat \<Rightarrow> nat io" where
  "channel_enter B conn =
     bind (lib_new B (Channel conn))
       (\<lambda>ch. bind (logger_info ''Opened new channel'') (\<lambda>u. return ch))"

definition channel_exit :: "broker \<Rightarrow> nat \<Rightarrow> unit io" where
  "channel_exit B ch w =
     (if ch \<in> open_objs w then try_except_pass IOError (lib_call B (ChannelClose ch)) w
      else (Inr (), w))"

definition channel :: "broker \<Rightarrow> Kuyruk \<Rightarrow> (nat \<Rightarrow> 'a io) \<Rightarrow> 'a io" where
  "channel B self body =
     connection B self
       (\<lambda>conn. bind (channel_enter B conn)
          (\<lambda>ch. try_finally (body ch) (channel_exit B ch)))"

text \<open>
  Modelled from the spec: invoking a descriptor (\<open>Task.__call__\<close>, kuyruk/task.py is not
  among the sources). It does not run the wrapped callable: it builds the message and
  publishes it on a channel taken from the channel scope of the \<open>Kuyruk\<close> object.
\<close>

definition Task_call :: "broker \<Rightarrow> Task \<Rightarrow> pyval list \<Rightarrow> (string \<times> pyval) list \<Rightarrow> unit io" where
  "Task_call B t args kwargs =
     channel B (task_kuyruk t)
       (\<lambda>ch. lib_call B (BasicPublish ch
                \<lparr>msg_queue = task_queue t, msg_function = task_f t, msg_args = args,
                 msg_kwargs = kwargs, msg_retry = task_retry t,
                 msg_max_run_time = task_max_run_time t\<rparr>))"

section \<open>Concrete brokers, objects and bodies\<close>

text \<open>The inputs at which the theorems below are instantiated.\<close>

definition world0 :: world where
  "world0 = \<lparr>trace = [], open_objs = {}, next_obj = 0, log = []\<rparr>"

text \<open>A broker that accepts every call.\<close>

definition accepting :: broker where
  "accepting tr c = Succeeds"

text \<open>A broker that rejects connection attempts.\<close>

fun rejecting :: broker where
  "rejecting tr (BlockingConnection p) = Raises (OtherError ''AMQPConnectionError'')"
| "rejecting tr (AmqpConnection h u p v) = Raises IOError"
| "rejecting tr c = Succeeds"


text \<open>A broker that no longer answers heartbeats.\<close>

fun silent :: broker where
  "silent tr (SendHeartbeat c) = Raises IOError"
| "silent tr c = Succeeds"

text \<open>Brokers on which closing a channel fails, with an I/O error or with a protocol error.\<close>

fun close_ioerror :: broker where
  "close_ioerror tr (ChannelClose ch) = Raises IOError"
| "close_ioerror tr c = Succeeds"

fun close_channel_error :: broker where
  "close_channel_error tr (ChannelClose ch) = Raises (OtherError ''ChannelError'')"
| "close_channel_error tr c = Succeeds"

definition manager0 :: LazyConnection where
  "manager0 = LazyConnection_init ''localhost'' 5672 ''guest'' ''guest''"

definition manager1 :: LazyConnection where
  "manager1 = manager0\<lparr>lc_connection := Some 0\<rparr>"

definition world1 :: world where
  "world1 = \<lparr>trace = [Created (BlockingConnection (ConnectionParameters ''localhost'' 5672
                         (PlainCredentials ''guest'' ''guest''))) 0,
                      Created (Channel 0) 1],
             open_objs = {0, 1}, next_obj = 2, log = [(INFO, ''Connected to RabbitMQ'')]\<rparr>"

definition config0 :: Config where
  "config0 = \<lparr>RABBIT_HOST = ''localhost'', RABBIT_PORT = 5672, RABBIT_USER = ''guest'',
              RABBIT_PASSWORD = ''guest'', RABBIT_VIRTUAL_HOST = ''/''\<rparr>"

definition kuyruk0 :: Kuyruk where
  "kuyruk0 = \<lparr>config = config0, extensions = []\<rparr>"

definition failing_body :: "nat \<Rightarrow> unit io" where
  "failing_body ch w = (Inl (OtherError ''boom''), w)"

definition empty_body :: "nat \<Rightarrow> unit io" where
  "empty_body ch w = (Inr (), w)"

text \<open>The world after \<open>kuyruk0\<close> has entered the connection scope, and the channel scope.\<close>

definition world_connected :: world where
  "world_connected =
     \<lparr>trace = [Created (AmqpConnection ''localhost:5672'' ''guest'' ''guest'' ''/'') 0,
               Returned (Connect 0)],
      open_objs = {0}, next_obj = 1, log = [(INFO, ''Connected to RabbitMQ'')]\<rparr>"

definition world_channel :: world where
  "world_channel =
     \<lparr>trace = [Created (AmqpConnection ''localhost:5672'' ''guest'' ''guest'' ''/'') 0,
               Returned (Connect 0), Created (Channel 0) 1],
      open_objs = {0, 1}, next_obj = 2,
      log = [(INFO, ''Connected to RabbitMQ''), (INFO, ''Opened new channel'')]\<rparr>"

definition add :: pyval where
  "add = PyCallable ''add''"

section \<open>Observations on traces\<close>



text \<open>A computation that adds at least \<open>n\<close> library calls to the trace and removes none.\<close>

definition grows_by :: "nat \<Rightarrow> 'a io \<Rightarrow> bool" where
  "grows_by n m = (\<forall>w. length (trace w) + n \<le> length (trace (snd (m w))))"

section \<open>Evaluation\<close>

lemmas io_defs = bind_def return_def try_finally_def try_except_pass_def logger_info_def
  logger_debug_def lib_call_def lib_new_def mark_closed_def

lemmas fixture_defs = world0_def world1_def manager0_def manager1_def LazyConnection_init_def
  config0_def kuyruk0_def accepting_def failing_body_def empty_body_def world_connected_def
  world_channel_def add_def

lemmas scope_defs = connection_def connection_enter_def connection_exit_def is_alive_def
  channel_def channel_enter_def channel_exit_def

section \<open>LazyConnection: lazy opening, liveness, closing\<close>

lemma is_open_log [simp]: "is_open m (w\<lparr>log := l\<rparr>) = is_open m w"
  by (simp add: is_open_def split: option.splits)

lemma close_lc_not_open:
  "\<not> is_open m w \<Longrightarrow>
   close_lc B m w = (Inr (), m, w\<lparr>log := log w @ [(DEBUG, ''Not connected'')]\<rparr>)"
  by (simp add: close_lc_def logger_debug_def)

lemma close_times_not_open:
  "\<not> is_open m w \<Longrightarrow>
   close_times B n m w =
     (Inr (), m, w\<lparr>log := log w @ replicate n (DEBUG, ''Not connected'')\<rparr>)"
proof (induction n arbitrary: w)
  case 0
  show ?case by simp
next
  case (Suc n)
  let ?w = "w\<lparr>log := log w @ [(DEBUG, ''Not connected'')]\<rparr>"
  have "close_times B n m ?w =
        (Inr (), m, ?w\<lparr>log := log ?w @ replicate n (DEBUG, ''Not connected'')\<rparr>)"
    using Suc.prems by (intro Suc.IH) simp
  then show ?case
    using Suc.prems by (simp add: close_lc_not_open replicate_append_same)
qed

lemma close_lc_open:
  assumes "is_open m w" "lc_connection m = Some c" "B (trace w) (Close c) = Succeeds"
  shows "close_lc B m w =
     (Inr (), m, w\<lparr>trace := trace w @ [Returned (Close c)], open_objs := open_objs w - {c},
                    log := log w @ [(INFO, ''Connection closed'')]\<rparr>)"
  using assms by (simp add: close_lc_def lib_call_def mark_closed_def logger_info_def)

text \<open>
  C4. \<open>close()\<close> on a manager that is not open (never opened, or closed already) raises
  nothing, calls nothing in the library and leaves the manager as it is, however often
  it is repeated: \<open>n\<close> calls only write \<open>n\<close> debug records. \<open>close()\<close> on an open manager
  calls \<open>close()\<close> on the connection; when that returns, the manager is not open any
  more, so that every further \<open>close()\<close> is such a no-op.
\<close>

theorem close_idempotent:
  "(\<not> is_open m w \<longrightarrow>
      close_times B n m w =
        (Inr (), m, w\<lparr>log := log w @ replicate n (DEBUG, ''Not connected'')\<rparr>)) \<and>
   (is_open m w \<and> lc_connection m = Some c \<and> B (trace w) (Close c) = Succeeds \<longrightarrow>
      (\<exists>w1. close_lc B m w = (Inr (), m, w1) \<and>
            trace w1 = trace w @ [Returned (Close c)] \<and>
            \<not> is_open m w1 \<and>
            fst (close_times B n m w1) = Inr () \<and>
            trace (snd (snd (close_times B n m w1))) = trace w1 \<and>
            open_objs (snd (snd (close_times B n m w1))) = open_objs w1))"
proof (intro conjI impI)
  assume "\<not> is_open m w"
  then show "close_times B n m w =
        (Inr (), m, w\<lparr>log := log w @ replicate n (DEBUG, ''Not connected'')\<rparr>)"
    by (rule close_times_not_open)
next
  assume a: "is_open m w \<and> lc_connection m = Some c \<and> B (trace w) (Close c) = Succeeds"
  let ?w1 = "w\<lparr>trace := trace w @ [Returned (Close c)], open_objs := open_objs w - {c},
                    log := log w @ [(INFO, ''Connection closed'')]\<rparr>"
  have 1: "close_lc B m w = (Inr (), m, ?w1)" using a by (simp add: close_lc_open)
  have 2: "\<not> is_open m ?w1" using a by (simp add: is_open_def)
  have 3: "close_times B n m ?w1 =
        (Inr (), m, ?w1\<lparr>log := log ?w1 @ replicate n (DEBUG, ''Not connected'')\<rparr>)"
    using 2 by (rule close_times_not_open)
  show "\<exists>w1. close_lc B m w = (Inr (), m, w1) \<and>
            trace w1 = trace w @ [Returned (Close c)] \<and>
            \<not> is_open m w1 \<and>
            fst (close_times B n m w1) = Inr () \<and>
            trace (snd (snd (close_times B n m w1))) = trace w1 \<and>
            open_objs (snd (snd (close_times B n m w1))) = open_objs w1"
    apply (rule exI [of _ ?w1])
    using 1 2 3 by simp
qed

theorem close_idempotent_witness:
  "\<not> is_open manager0 world0 \<and>
   close_times accepting 3 manager0 world0 =
     (Inr (), manager0,
      world0\<lparr>log := log world0 @ replicate 3 (DEBUG, ''Not connected'')\<rparr>) \<and>
   is_open manager1 world1 \<and>
   (\<exists>w1. close_lc accepting manager1 world1 = (Inr (), manager1, w1) \<and>
         trace w1 = trace world1 @ [Returned (Close 0)] \<and>
         \<not> is_open manager1 w1 \<and>
         fst (close_times accepting 2 manager1 w1) = Inr () \<and>
         trace (snd (snd (close_times accepting 2 manager1 w1))) = trace w1 \<and>
         open_objs (snd (snd (close_times accepting 2 manager1 w1))) = open_objs w1)"
proof -
  have h1: "\<not> is_open manager0 world0"
    by (simp add: is_open_def fixture_defs)
  have h2: "is_open manager1 world1 \<and> lc_connection manager1 = Some 0 \<and>
            accepting (trace world1) (Close 0) = Succeeds"
    by (simp add: is_open_def fixture_defs)
  from h1 h2
    close_idempotent [where m = manager0 and w = world0 and B = accepting and n = 3]
    close_idempotent [where m = manager1 and w = world1 and B = accepting and n = 2 and c = 0]
  show ?thesis by blast
qed

text \<open>
  C5. When the manager is not open and \<open>pika.BlockingConnection\<close> raises \<open>e\<close> (the
  transport cannot be established), \<open>channel()\<close> raises that \<open>e\<close>; the manager is as
  before, so a stored connection that was absent is still absent, no object was
  created, and \<open>is_open\<close> is still false.
\<close>

theorem channel_open_failure:
  "\<not> is_open m w \<and>
   B (trace w) (BlockingConnection
        (ConnectionParameters (host m) (port m) (PlainCredentials (user m) (password m))))
     \<in> {Raises e, Drops e} \<longrightarrow>
   channel_lc B m w =
     (Inl e, m,
      w\<lparr>trace := trace w @ [Raised (BlockingConnection
           (ConnectionParameters (host m) (port m) (PlainCredentials (user m) (password m)))) e]\<rparr>)
   \<and> \<not> is_open m (snd (snd (channel_lc B m w)))
   \<and> open_objs (snd (snd (channel_lc B m w))) = open_objs w"
  by (auto simp: channel_lc_def open_conn_def lib_new_def mark_closed_def is_open_def Let_def
           split: option.splits)

theorem channel_open_failure_witness:
  "\<not> is_open manager0 world0 \<and>
   lc_connection manager0 = None \<and>
   channel_lc rejecting manager0 world0 =
     (Inl (OtherError ''AMQPConnectionError''), manager0,
      world0\<lparr>trace := [Raised (BlockingConnection (ConnectionParameters ''localhost'' 5672
                          (PlainCredentials ''guest'' ''guest'')))
                        (OtherError ''AMQPConnectionError'')]\<rparr>) \<and>
   \<not> is_open manager0 (snd (snd (channel_lc rejecting manager0 world0)))"
  using channel_open_failure [where m = manager0 and w = world0 and B = rejecting
      and e = "OtherError ''AMQPConnectionError''"]
  by (simp add: is_open_def fixture_defs)








section \<open>Kuyruk: the connection scope and the channel scope\<close>

text \<open>
  C6. In the connection scope, once the scope is entered and the body has run (returned
  or raised \<open>r\<close>), the exit sends one heartbeat. If it fails with an \<open>IOError\<close> (the
  connection is dead), \<open>close()\<close> is not called and the scope ends as the body did; in
  every case in which the heartbeat does not succeed, the heartbeat is the last call
  made, so the connection's \<open>close()\<close> is called only after a heartbeat that succeeded,
  and then it is called.
\<close>

theorem connection_exit_probe:
  assumes "connection_enter B k w = (Inr conn, w1)" and "body conn w1 = (r, w2)"
  shows "(B (trace w2) (SendHeartbeat conn) \<in> {Raises IOError, Drops IOError} \<longrightarrow>
            fst (connection B k body w) = r \<and>
            trace (snd (connection B k body w)) =
              trace w2 @ [Raised (SendHeartbeat conn) IOError]) \<and>
         (B (trace w2) (SendHeartbeat conn) \<noteq> Succeeds \<longrightarrow>
            (\<exists>e. trace (snd (connection B k body w)) =
                   trace w2 @ [Raised (SendHeartbeat conn) e])) \<and>
         (B (trace w2) (SendHeartbeat conn) = Succeeds \<longrightarrow>
            trace (snd (connection B k body w)) =
              trace w2 @
              [Returned (SendHeartbeat conn),
               case B (trace w2 @ [Returned (SendHeartbeat conn)]) (Close conn) of
                 Succeeds \<Rightarrow> Returned (Close conn)
               | Raises e \<Rightarrow> Raised (Close conn) e
               | Drops e \<Rightarrow> Raised (Close conn) e])"
proof -
  have c: "connection B k body w = try_finally (body conn) (connection_exit B conn) w1"
    by (simp add: connection_def bind_def assms(1))
  show ?thesis
    unfolding c
    by (cases "B (trace w2) (SendHeartbeat conn)";
        cases "B (trace w2 @ [Returned (SendHeartbeat conn)]) (Close conn)")
       (auto simp: try_finally_def assms(2) connection_exit_def is_alive_def io_defs)
qed

theorem connection_exit_probe_witness:
  "fst (connection silent kuyruk0 failing_body world0) = Inl (OtherError ''boom'') \<and>
   trace (snd (connection silent kuyruk0 failing_body world0)) =
     [Created (AmqpConnection ''localhost:5672'' ''guest'' ''guest'' ''/'') 0,
      Returned (Connect 0), Raised (SendHeartbeat 0) IOError] \<and>
   trace (snd (connection accepting kuyruk0 empty_body world0)) =
     [Created (AmqpConnection ''localhost:5672'' ''guest'' ''guest'' ''/'') 0,
      Returned (Connect 0), Returned (SendHeartbeat 0), Returned (Close 0)]"
proof -
  have e1: "connection_enter silent kuyruk0 world0 = (Inr 0, world_connected)"
    by (simp add: connection_enter_def io_defs fixture_defs)
  have b1: "failing_body 0 world_connected = (Inl (OtherError ''boom''), world_connected)"
    by (simp add: failing_body_def)
  have e2: "connection_enter accepting kuyruk0 world0 = (Inr 0, world_connected)"
    by (simp add: connection_enter_def io_defs fixture_defs)
  have b2: "empty_body 0 world_connected = (Inr (), world_connected)"
    by (simp add: empty_body_def)
  show ?thesis
    using connection_exit_probe [where body = failing_body, OF e1 b1]
      connection_exit_probe [where body = empty_body, OF e2 b2]
    by (simp add: accepting_def world_connected_def)
qed


lemma connection_exit_trace:
  "\<exists>rest. trace (snd (connection_exit B conn w)) = trace w @ rest \<and>
          open_objs (snd (connection_exit B conn w)) \<subseteq> open_objs w"
  by (cases "B (trace w) (SendHeartbeat conn)";
      cases "B (trace w @ [Returned (SendHeartbeat conn)]) (Close conn)")
     (auto simp: connection_exit_def is_alive_def io_defs)

lemma channel_exit_ok:
  assumes "ch \<in> open_objs w \<longrightarrow>
           B (trace w) (ChannelClose ch) \<in> {Succeeds, Raises IOError, Drops IOError}"
  shows "fst (channel_exit B ch w) = Inr () \<and>
         (ch \<in> open_objs w \<longrightarrow>
            (\<exists>ev. trace (snd (channel_exit B ch w)) = trace w @ [ev] \<and>
               (ev = Returned (ChannelClose ch) \<or> ev = Raised (ChannelClose ch) IOError))) \<and>
         (ch \<in> open_objs w \<and> B (trace w) (ChannelClose ch) = Succeeds \<longrightarrow>
            ch \<notin> open_objs (snd (channel_exit B ch w)))"
  using assms
  by (cases "B (trace w) (ChannelClose ch)") (auto simp: channel_exit_def io_defs)

lemma channel_in_scope:
  assumes "connection_enter B k w = (Inr conn, w1)"
    and "channel_enter B conn w1 = (Inr ch, w2)"
  shows "channel B k body w =
         try_finally (try_finally (body ch) (channel_exit B ch) \<circ> (\<lambda>v. w2))
           (connection_exit B conn) w1"
  by (simp add: channel_def connection_def bind_def assms try_finally_def)

text \<open>
  C1, as the code has it. A body that raises \<open>e\<close> inside the channel scope: if the channel
  still reports open, its \<open>close()\<close> is called at once on that exit path, and an \<open>IOError\<close>
  from it is swallowed. The error that leaves the scope is \<open>e\<close>, provided that
  \<open>close()\<close> on the channel raises nothing but an \<open>IOError\<close> and that the exit of the
  enclosing connection scope (heartbeat, \<open>close()\<close> on the connection) raises nothing.
  When \<open>close()\<close> on the channel returns, the channel is closed afterwards.
\<close>

theorem channel_body_error:
  assumes "connection_enter B k w = (Inr conn, w1)"
    and "channel_enter B conn w1 = (Inr ch, w2)"
    and "body ch w2 = (Inl e, w3)"
    and "ch \<in> open_objs w3 \<longrightarrow>
           B (trace w3) (ChannelClose ch) \<in> {Succeeds, Raises IOError, Drops IOError}"
    and "fst (connection_exit B conn (snd (channel_exit B ch w3))) = Inr ()"
  shows "fst (channel B k body w) = Inl e \<and>
         (ch \<in> open_objs w3 \<longrightarrow>
            (\<exists>ev rest. trace (snd (channel B k body w)) = trace w3 @ ev # rest \<and>
               (ev = Returned (ChannelClose ch) \<or> ev = Raised (ChannelClose ch) IOError))) \<and>
         (ch \<in> open_objs w3 \<and> B (trace w3) (ChannelClose ch) = Succeeds \<longrightarrow>
            ch \<notin> open_objs (snd (channel B k body w)))"
proof -
  define w4 where "w4 = snd (channel_exit B ch w3)"
  from channel_exit_ok [where B = B, OF assms(4)] have
    x: "channel_exit B ch w3 = (Inr (), w4)"
    and t4: "ch \<in> open_objs w3 \<longrightarrow>
               (\<exists>ev. trace w4 = trace w3 @ [ev] \<and>
                  (ev = Returned (ChannelClose ch) \<or> ev = Raised (ChannelClose ch) IOError))"
    and o4: "ch \<in> open_objs w3 \<and> B (trace w3) (ChannelClose ch) = Succeeds \<longrightarrow>
               ch \<notin> open_objs w4"
    unfolding w4_def by (simp_all add: prod_eq_iff)
  obtain w5 where y: "connection_exit B conn w4 = (Inr (), w5)"
    using assms(5) x by (cases "connection_exit B conn w4") auto
  from connection_exit_trace [of B conn w4] y obtain rest where
    t5: "trace w5 = trace w4 @ rest" and o5: "open_objs w5 \<subseteq> open_objs w4"
    by auto
  have c: "channel B k body w = (Inl e, w5)"
    by (simp add: channel_in_scope [OF assms(1,2)] try_finally_def assms(3) x y)
  show ?thesis
    using t4 o4 t5 o5 by (auto simp: c)
qed

theorem channel_body_error_witness:
  "fst (channel close_ioerror kuyruk0 failing_body world0) = Inl (OtherError ''boom'') \<and>
   (\<exists>ev rest. trace (snd (channel close_ioerror kuyruk0 failing_body world0)) =
        trace world_channel @ ev # rest \<and>
        (ev = Returned (ChannelClose 1) \<or> ev = Raised (ChannelClose 1) IOError)) \<and>
   fst (channel accepting kuyruk0 failing_body world0) = Inl (OtherError ''boom'') \<and>
   1 \<notin> open_objs (snd (channel accepting kuyruk0 failing_body world0))"
proof -
  have e1: "connection_enter close_ioerror kuyruk0 world0 = (Inr 0, world_connected)"
    by (simp add: connection_enter_def io_defs fixture_defs)
  have e2: "channel_enter close_ioerror 0 world_connected = (Inr 1, world_channel)"
    by (simp add: channel_enter_def io_defs fixture_defs insert_commute)
  have e3: "failing_body 1 world_channel = (Inl (OtherError ''boom''), world_channel)"
    by (simp add: failing_body_def)
  have e4: "1 \<in> open_objs world_channel \<and>
            close_ioerror (trace world_channel) (ChannelClose 1) = Raises IOError"
    by (simp add: fixture_defs)
  have e5: "fst (connection_exit close_ioerror 0
              (snd (channel_exit close_ioerror 1 world_channel))) = Inr ()"
    by (simp add: connection_exit_def is_alive_def channel_exit_def io_defs fixture_defs)
  have a1: "connection_enter accepting kuyruk0 world0 = (Inr 0, world_connected)"
    by (simp add: connection_enter_def io_defs fixture_defs)
  have a2: "channel_enter accepting 0 world_connected = (Inr 1, world_channel)"
    by (simp add: channel_enter_def io_defs fixture_defs insert_commute)
  have a4: "1 \<in> open_objs world_channel \<and>
            accepting (trace world_channel) (ChannelClose 1) = Succeeds"
    by (simp add: fixture_defs)
  have a5: "fst (connection_exit accepting 0
              (snd (channel_exit accepting 1 world_channel))) = Inr ()"
    by (simp add: connection_exit_def is_alive_def channel_exit_def io_defs fixture_defs)
  from e4 a4
    channel_body_error [where body = failing_body, OF e1 e2 e3 _ e5]
    channel_body_error [where body = failing_body, OF a1 a2 e3 _ a5]
  show ?thesis by simp
qed

text \<open>
  C1 as stated fails: only \<open>IOError\<close> is caught around \<open>ch.close()\<close>. On a broker where
  closing the channel raises a protocol error, that error leaves the scope in place of
  the body's error.
\<close>

theorem channel_close_error_masks_counterexample:
  "fst (failing_body 1 world_channel) = Inl (OtherError ''boom'') \<and>
   fst (channel close_channel_error kuyruk0 failing_body world0) =
     Inl (OtherError ''ChannelError'')"
  by (simp add: scope_defs io_defs fixture_defs)

section \<open>Kuyruk: construction and the task decorator\<close>

text \<open>
  C7, as the code has it. The bare decorator above a function \<open>fn\<close> makes a descriptor at
  once, the decorator with arguments makes one when the function \<open>inner\<close> it returns is
  applied to the function; in both the queue name is present. When the queue is omitted
  (the bare form, where the sole argument is callable, and the form with arguments
  but no \<open>queue\<close>) it is the fixed default \<open>'kuyruk'\<close>; a queue name \<open>x\<close> that is given is
  kept.
\<close>

theorem task_queue_default:
  "(callable fn \<longrightarrow>
      fst (task k (Some fn) None None w) =
        Inr (Wrapped \<lparr>task_f = fn, task_kuyruk = k, task_queue = PyStr ''kuyruk'',
                       task_retry = PyInt 0, task_max_run_time = PyNone\<rparr>)) \<and>
   (\<exists>d. fst (task k None r m w) = Inr (Decorator d) \<and>
        (\<forall>g v. \<exists>t. fst (d g v) = Inr t \<and> task_f t = g \<and> task_queue t = PyStr ''kuyruk'')) \<and>
   (\<exists>d. fst (task k (Some (PyStr x)) r m w) = Inr (Decorator d) \<and>
        (\<forall>g v. \<exists>t. fst (d g v) = Inr t \<and> task_f t = g \<and> task_queue t = PyStr x \<and>
                    task_queue t \<noteq> PyNone))"
  by (cases fn)
     (simp_all add: task_def decorator_def inner_def Task_init_def bind_def return_def)

theorem task_queue_default_witness:
  "callable add \<and>
   fst (task kuyruk0 (Some add) None None world0) =
     Inr (Wrapped \<lparr>task_f = add, task_kuyruk = kuyruk0, task_queue = PyStr ''kuyruk'',
                    task_retry = PyInt 0, task_max_run_time = PyNone\<rparr>)"
  using task_queue_default [where fn = add and k = kuyruk0 and w = world0]
  by (simp add: add_def)

text \<open>
  C7 as stated fails: the default queue name of the source is \<open>'kuyruk'\<close>, not \<open>'default'\<close>.
\<close>

theorem task_queue_default_counterexample:
  "fst (task kuyruk0 (Some add) None None world0) \<noteq>
     Inr (Wrapped \<lparr>task_f = add, task_kuyruk = kuyruk0, task_queue = PyStr ''default'',
                    task_retry = PyInt 0, task_max_run_time = PyNone\<rparr>)"
  by (simp add: task_def decorator_def inner_def Task_init_def bind_def return_def add_def)

text \<open>
  C8. \<open>Kuyruk.__init__\<close> checks the configuration when the object is constructed: with
  no configuration the default is taken, with an instance of \<open>Config\<close> that instance, and
  neither raises; a value of any other type raises at once. The error raised is Python's
  \<open>TypeError\<close>.
\<close>

theorem Kuyruk_init_eager:
  "Kuyruk_init d PyNone = Inr \<lparr>config = d, extensions = []\<rparr> \<and>
   Kuyruk_init d (PyConfig c) = Inr \<lparr>config = c, extensions = []\<rparr> \<and>
   Kuyruk_init d (PyStr s) = Inl TypeError \<and>
   Kuyruk_init d (PyInt i) = Inl TypeError \<and>
   Kuyruk_init d (PyCallable n) = Inl TypeError"
  by (simp add: Kuyruk_init_def)

lemma grows_lib_call: "grows_by 1 (lib_call B c)"
  by (cases "B (trace w) c") (auto simp: grows_by_def lib_call_def split: outcome.splits)

lemma grows_lib_new: "grows_by 1 (lib_new B c)"
  by (auto simp: grows_by_def lib_new_def split: outcome.splits)

lemma grows_weaken: "grows_by n m \<Longrightarrow> grows_by 0 m"
  by (auto simp: grows_by_def dest: add_leD1)

lemma grows_return: "grows_by 0 (return x)"
  by (simp add: grows_by_def return_def)

lemma grows_logger_info: "grows_by 0 (logger_info s)"
  by (simp add: grows_by_def logger_info_def)

lemma grows_bind:
  assumes "grows_by n m" and "\<And>x. grows_by 0 (f x)"
  shows "grows_by n (bind m f)"
  unfolding grows_by_def
proof
  fix w
  obtain r w1 where m: "m w = (r, w1)" by (cases "m w")
  have 1: "length (trace w) + n \<le> length (trace w1)"
    using assms(1) m by (auto simp: grows_by_def dest: spec [of _ w])
  show "length (trace w) + n \<le> length (trace (snd (bind m f w)))"
  proof (cases r)
    case (Inl e)
    then show ?thesis using 1 by (simp add: bind_def m)
  next
    case (Inr x)
    have "length (trace w1) \<le> length (trace (snd (f x w1)))"
      using assms(2) [of x] by (auto simp: grows_by_def dest: spec [of _ w1])
    then show ?thesis using 1 Inr by (simp add: bind_def m)
  qed
qed

lemma grows_try_finally:
  assumes "grows_by 0 m" and "grows_by 0 fin"
  shows "grows_by 0 (try_finally m fin)"
  unfolding grows_by_def
proof
  fix w
  obtain r w1 where m: "m w = (r, w1)" by (cases "m w")
  obtain q w2 where f: "fin w1 = (q, w2)" by (cases "fin w1")
  have "length (trace w) \<le> length (trace w1)"
    using assms(1) m by (auto simp: grows_by_def dest: spec [of _ w])
  moreover have "length (trace w1) \<le> length (trace w2)"
    using assms(2) f by (auto simp: grows_by_def dest: spec [of _ w1])
  ultimately show "length (trace w) + 0 \<le> length (trace (snd (try_finally m fin w)))"
    by (cases q) (simp_all add: try_finally_def m f)
qed

lemma grows_try_except_pass:
  assumes "grows_by 0 m"
  shows "grows_by 0 (try_except_pass x m)"
  unfolding grows_by_def
proof
  fix w
  obtain r w1 where m: "m w = (r, w1)" by (cases "m w")
  have "length (trace w) \<le> length (trace w1)"
    using assms m by (auto simp: grows_by_def dest: spec [of _ w])
  then show "length (trace w) + 0 \<le> length (trace (snd (try_except_pass x m w)))"
    by (cases r) (simp_all add: try_except_pass_def m)
qed

lemma grows_is_alive: "grows_by 0 (is_alive B conn)"
  by (auto simp: grows_by_def is_alive_def lib_call_def split: outcome.splits)

lemma grows_connection_exit: "grows_by 0 (connection_exit B conn)"
  unfolding connection_exit_def
  by (intro grows_bind grows_is_alive)
     (simp add: grows_return grows_weaken [OF grows_lib_call])

lemma grows_channel_exit: "grows_by 0 (channel_exit B ch)"
proof -
  have "grows_by 0 (try_except_pass IOError (lib_call B (ChannelClose ch)))"
    by (intro grows_try_except_pass grows_weaken [OF grows_lib_call])
  then show ?thesis
    by (auto simp: grows_by_def channel_exit_def)
qed

lemma grows_connection:
  assumes "\<And>conn. grows_by 0 (body conn)"
  shows "grows_by 1 (connection B k body)"
  unfolding connection_def connection_enter_def
  by (intro grows_bind grows_lib_new grows_try_finally grows_connection_exit
        grows_try_except_pass grows_weaken [OF grows_lib_call] grows_logger_info grows_return
        assms)

lemma grows_channel:
  assumes "\<And>ch. grows_by 0 (body ch)"
  shows "grows_by 1 (channel B k body)"
  unfolding channel_def channel_enter_def
  by (intro grows_connection grows_bind grows_weaken [OF grows_lib_new] grows_try_finally
        grows_channel_exit grows_logger_info grows_return assms)

text \<open>
  C9. Registering a function, with any arguments of the decorator, leaves the world as
  it is: no call into the broker library, no log record; the same holds for applying the
  function \<open>inner\<close> that the decorator with arguments returns. The descriptor refers to
  the \<open>Kuyruk\<close> object unchanged. Invoking a descriptor, on any broker, makes at least one
  call into the library.
\<close>

theorem task_registration_pure:
  "snd (task k queue_arg retry_arg max_run_time_arg w) = w \<and>
   (case fst (task k queue_arg retry_arg max_run_time_arg w) of
      Inl e \<Rightarrow> False
    | Inr (Wrapped t) \<Rightarrow> task_kuyruk t = k
    | Inr (Decorator d) \<Rightarrow>
        (\<forall>g v. snd (d g v) = v \<and> (\<exists>t. fst (d g v) = Inr t \<and> task_kuyruk t = k))) \<and>
   length (trace v) < length (trace (snd (Task_call B t args kwargs v)))"
proof -
  have "grows_by 1 (Task_call B t args kwargs)"
    unfolding Task_call_def by (intro grows_channel grows_weaken [OF grows_lib_call])
  then have "length (trace v) + 1 \<le> length (trace (snd (Task_call B t args kwargs v)))"
    unfolding grows_by_def by blast
  then show ?thesis
    by (simp add: task_def decorator_def inner_def Task_init_def bind_def return_def Let_def)
qed

section \<open>Kuyruk: one connection for each channel scope\<close>









end
